theory Spec2Isabelle
  imports Complex_Main
begin

section \<open>Values read from and written to the page\<close>

text \<open>
  JavaScript numbers (pixel coordinates and sizes) are modelled as reals, timestamps of
  \<^verbatim>\<open>Date.now()\<close> as integers (milliseconds). An inline size of the panel
  (\<^verbatim>\<open>panel.style.height\<close>, \<^verbatim>\<open>panel.style.width\<close>) is one of the three shapes the
  controller writes: the empty string, a pixel length, or a percentage.

  CSS classes (of the panel, the body and the content region) and the content wrapper's
  inline height are written by the controller but never decide any of its branches (the
  one read, \<^verbatim>\<open>classList.contains("bottomsheet-dragging")\<close>, guards an idempotent add),
  so they are not part of the state below. Custom events dispatched on the panel are
  recorded, in order, in the field \<open>dispatched\<close>.
\<close>

datatype css_size = Unset | Px real | Percent real

text \<open>The assignment \<^verbatim>\<open>panel.style.height = `${x}px`\<close> (and the same for the width): the page
  does not accept a negative length for a height or a width and then keeps the inline size
  it had; otherwise the inline size becomes \<open>x\<close> pixels. The assignments of the empty
  string and of \<^verbatim>\<open>"50%"\<close> always take effect.\<close>

definition set_px :: "real \<Rightarrow> css_size \<Rightarrow> css_size" where
  "set_px x old = (if x < 0 then old else Px x)"

text \<open>An element as the scroll classifier reads it: its identity, computed
  \<^verbatim>\<open>overflow-y\<close> and its scroll metrics.\<close>

record element =
  el_id :: nat
  overflowY :: string
  scrollTop :: real
  scrollHeight :: real
  clientHeight :: real

text \<open>An event target: whether it is an \<^verbatim>\<open>Element\<close>, what \<^verbatim>\<open>closest(selector)\<close>
  finds for the four selectors the controller asks about, and the chain of elements
  obtained by following \<^verbatim>\<open>parentElement\<close> from the target itself until \<^verbatim>\<open>null\<close>.\<close>

record target =
  is_element :: bool
  closest_interactive :: bool
  closest_drag_handle :: bool
  closest_header :: bool
  closest_content :: bool
  parent_chain :: "element list"

text \<open>A pointer event: a mouse event with \<^verbatim>\<open>clientX\<close>, \<^verbatim>\<open>clientY\<close> and its target; a
  touch event with \<^verbatim>\<open>clientX\<close>, \<^verbatim>\<open>clientY\<close> and the target of \<^verbatim>\<open>touches[0]\<close> (a
  \<^verbatim>\<open>touchstart\<close> or \<^verbatim>\<open>touchmove\<close> event has at least one touch) followed by the target
  of the event itself; or an event of another kind.\<close>

datatype ui_event =
    MouseEvent real real "target option"
  | TouchEvent real real "target option" "target option"
  | OtherEvent

fun isMouseEvent :: "ui_event \<Rightarrow> bool" where
  "isMouseEvent (MouseEvent x y t) = True"
| "isMouseEvent _ = False"

fun isTouchEvent :: "ui_event \<Rightarrow> bool" where
  "isTouchEvent (TouchEvent x y t et) = True"
| "isTouchEvent _ = False"

fun event_target :: "ui_event \<Rightarrow> target option" where
  "event_target (MouseEvent x y t) = t"
| "event_target (TouchEvent x y t et) = et"
| "event_target OtherEvent = None"

text \<open>What a handler reads from the browser while it runs: the screen width, the clock,
  and the layout of the panel, its container, its header and its drag handle (the last
  two are absent when \<^verbatim>\<open>querySelector\<close> finds nothing).\<close>

record env =
  screen_width :: real
  now :: int
  panel_offsetHeight :: real
  panel_offsetWidth :: real
  container_clientHeight :: real
  header_clientHeight :: "real option"
  dragHandle_clientHeight :: "real option"

definition isMobile :: "env \<Rightarrow> bool" where
  "isMobile v = (screen_width v < 768)"

section \<open>The panel controller\<close>

text \<open>The fields of \<^verbatim>\<open>options\<close> and \<^verbatim>\<open>state\<close>, the identity of the panel element, its two
  inline sizes, the timer of the hold helper (the event it will deliver, when pending) and
  the events dispatched so far.\<close>

record bottomsheet =
  panel :: nat
  maxSize :: real
  minSize :: real
  closeOnOverlayClick :: bool
  startPoint :: real
  startSize :: real
  prevPoint :: real
  lastDiff :: real
  isDragging :: bool
  isOpen :: bool
  isMinimized :: bool
  isMaximized :: bool
  isUpdating :: bool
  dragStart :: int
  hasMoved :: bool
  totalMovement :: real
  style_height :: css_size
  style_width :: css_size
  holdTimer :: "ui_event option"
  dispatched :: "string list"

text \<open>The constructor: the defaults \<open>500\<close>, \<open>40\<close>, \<open>False\<close> overridden by the options given.\<close>

definition BottomSheet_new :: "nat \<Rightarrow> real option \<Rightarrow> real option \<Rightarrow> bool option \<Rightarrow> bottomsheet" where
  "BottomSheet_new p mx mn cl =
     \<lparr> panel = p,
       maxSize = (case mx of None \<Rightarrow> 500 | Some v \<Rightarrow> v),
       minSize = (case mn of None \<Rightarrow> 40 | Some v \<Rightarrow> v),
       closeOnOverlayClick = (case cl of None \<Rightarrow> False | Some b \<Rightarrow> b),
       startPoint = 0, startSize = 0, prevPoint = 0, lastDiff = 0,
       isDragging = False, isOpen = False, isMinimized = False, isMaximized = False,
       isUpdating = False, dragStart = 0, hasMoved = False, totalMovement = 0,
       style_height = Unset, style_width = Unset, holdTimer = None, dispatched = [] \<rparr>"

definition dispatchEvent :: "string \<Rightarrow> bottomsheet \<Rightarrow> bottomsheet" where
  "dispatchEvent name s = s\<lparr>dispatched := dispatched s @ [name]\<rparr>"

definition updateSizeLimits :: "env \<Rightarrow> bottomsheet \<Rightarrow> bottomsheet" where
  "updateSizeLimits v s =
     (if isMobile v then
        (let s1 = s\<lparr>maxSize := container_clientHeight v * 0.95\<rparr> in
         case header_clientHeight v of
           None \<Rightarrow> s1
         | Some h \<Rightarrow>
            (case dragHandle_clientHeight v of
               None \<Rightarrow> s1
             | Some d \<Rightarrow> s1\<lparr>minSize := h + d\<rparr>))
      else s\<lparr>maxSize := 500, minSize := 40\<rparr>)"

definition showPanelContent :: "bottomsheet \<Rightarrow> bottomsheet" where
  "showPanelContent s =
     s\<lparr>style_width := Unset, style_height := Unset,
       isOpen := True, isMinimized := False, isUpdating := False\<rparr>"

definition hidePanelContent :: "bottomsheet \<Rightarrow> bottomsheet" where
  "hidePanelContent s = s\<lparr>isMinimized := True, isMaximized := False\<rparr>"

definition setMaxSize :: "env \<Rightarrow> bottomsheet \<Rightarrow> bottomsheet" where
  "setMaxSize v s =
     (let s1 = (showPanelContent s)\<lparr>isMaximized := True\<rparr>;
          s2 = (if isMobile v then s1\<lparr>style_height := set_px (maxSize s1) (style_height s1)\<rparr>
                else s1\<lparr>style_width := set_px (maxSize s1) (style_width s1)\<rparr>)
      in dispatchEvent ''bottomsheet:maxsize'' s2)"

definition setMinSize :: "env \<Rightarrow> bottomsheet \<Rightarrow> bottomsheet" where
  "setMinSize v s =
     (let s1 = hidePanelContent s;
          s2 = (if isMobile v then s1\<lparr>style_height := set_px (minSize s1) (style_height s1)\<rparr>
                else s1\<lparr>style_width := Unset\<rparr>)
      in dispatchEvent ''bottomsheet:minsize'' s2)"

definition setMidSize :: "env \<Rightarrow> bottomsheet \<Rightarrow> bottomsheet" where
  "setMidSize v s =
     (if isMobile v then
        (let s1 = showPanelContent (s\<lparr>isMaximized := False\<rparr>);
             s2 = s1\<lparr>style_height := Percent 50\<rparr>
         in dispatchEvent ''bottomsheet:midsize'' s2)
      else setMaxSize v s)"

definition open_bs :: "env \<Rightarrow> bottomsheet \<Rightarrow> bottomsheet" where
  "open_bs v s =
     (let s1 = updateSizeLimits v s in
      if isOpen s1 \<and> \<not> isUpdating s1 then setMidSize v s1
      else dispatchEvent ''bottomsheet:open'' (showPanelContent s1))"

definition close_bs :: "bottomsheet \<Rightarrow> bottomsheet" where
  "close_bs s =
     dispatchEvent ''bottomsheet:close''
       (s\<lparr>style_height := Unset, style_width := Unset, isOpen := False, isMinimized := False\<rparr>)"

definition minimize :: "env \<Rightarrow> bottomsheet \<Rightarrow> bottomsheet" where
  "minimize v s =
     (if \<not> isOpen s \<or> isMinimized s then s
      else
        (let s1 = (hidePanelContent s)\<lparr>isMinimized := True\<rparr>;
             s2 = (if isMobile v then s1\<lparr>style_height := set_px (minSize s1) (style_height s1)\<rparr>
                   else s1\<lparr>style_width := Unset\<rparr>)
         in dispatchEvent ''bottomsheet:minimized'' s2))"

definition updatePanel :: "bottomsheet \<Rightarrow> bottomsheet" where
  "updatePanel s =
     (if \<not> isOpen s then s
      else dispatchEvent ''bottomsheet:updating'' (s\<lparr>isUpdating := True\<rparr>))"

text \<open>The click listener of the container; \<open>inside\<close> says whether the click's target has
  an ancestor \<^verbatim>\<open>#bottomsheet\<close>.\<close>

definition containerClick :: "env \<Rightarrow> bool \<Rightarrow> bottomsheet \<Rightarrow> bottomsheet" where
  "containerClick v inside s =
     (if inside then s
      else if closeOnOverlayClick s then close_bs s
      else minimize v s)"

text \<open>The public queries \<^verbatim>\<open>isOpen()\<close>, \<^verbatim>\<open>isMaximized()\<close> and \<^verbatim>\<open>isMinimized()\<close>.\<close>

definition isOpen_query :: "bottomsheet \<Rightarrow> bool" where
  "isOpen_query s = (isOpen s \<and> \<not> isMinimized s)"

definition isMaximized_query :: "bottomsheet \<Rightarrow> bool" where
  "isMaximized_query s = (isOpen s \<and> isMaximized s)"

definition isMinimized_query :: "bottomsheet \<Rightarrow> bool" where
  "isMinimized_query s = isMinimized s"

section \<open>The gesture classifier\<close>

definition isScrollableY :: "nat \<Rightarrow> element option \<Rightarrow> bool" where
  "isScrollableY p el =
     (case el of
        None \<Rightarrow> False
      | Some e \<Rightarrow>
          if el_id e = p then False
          else (overflowY e = ''auto'' \<or> overflowY e = ''scroll'')
               \<and> scrollHeight e > clientHeight e)"

definition canScrollYInDirection :: "nat \<Rightarrow> element \<Rightarrow> real \<Rightarrow> bool" where
  "canScrollYInDirection p e delta =
     (if \<not> isScrollableY p (Some e) then False
      else if delta > 0 then scrollTop e > 5
      else if delta < 0 then scrollTop e + clientHeight e < scrollHeight e
      else False)"

text \<open>The loop \<^verbatim>\<open>while (el && el !== this.panel)\<close> over the chain of parents: the list is
  the start element followed by its ancestors, and it ends where \<^verbatim>\<open>parentElement\<close> is
  \<^verbatim>\<open>null\<close>.\<close>

fun anyScrollableAncestorCanMove :: "nat \<Rightarrow> element list \<Rightarrow> real \<Rightarrow> bool" where
  "anyScrollableAncestorCanMove p [] delta = False"
| "anyScrollableAncestorCanMove p (e # es) delta =
     (if el_id e = p then False
      else if canScrollYInDirection p e delta then True
      else anyScrollableAncestorCanMove p es delta)"

definition isInteractiveTarget :: "target \<Rightarrow> bool" where
  "isInteractiveTarget t = closest_interactive t"

definition isDragZone :: "target option \<Rightarrow> bool" where
  "isDragZone tg =
     (case tg of
        None \<Rightarrow> False
      | Some t \<Rightarrow>
          if \<not> is_element t then False
          else if isInteractiveTarget t then False
          else if closest_drag_handle t then True
          else if closest_header t then True
          else if closest_content t then True
          else False)"

section \<open>The drag lifecycle\<close>

definition onStart :: "env \<Rightarrow> ui_event \<Rightarrow> bottomsheet \<Rightarrow> bottomsheet" where
  "onStart v e s =
     (let tg = (case e of
                  MouseEvent x y t \<Rightarrow> t
                | TouchEvent x y t et \<Rightarrow> t
                | OtherEvent \<Rightarrow> None)
      in
      if tg \<noteq> None \<and> \<not> isDragZone tg then s
      else
        (let s1 = s\<lparr>isDragging := True, dragStart := now v, hasMoved := False,
                     totalMovement := 0\<rparr>;
             s2 = showPanelContent s1
         in
         if isMobile v then
           (let pt = (case e of
                        TouchEvent x y t et \<Rightarrow> y
                      | MouseEvent x y t \<Rightarrow> y
                      | OtherEvent \<Rightarrow> 0)
            in s2\<lparr>startPoint := pt, startSize := panel_offsetHeight v, prevPoint := pt\<rparr>)
         else
           (let pt = (case e of
                        MouseEvent x y t \<Rightarrow> x
                      | TouchEvent x y t et \<Rightarrow> x
                      | OtherEvent \<Rightarrow> 0)
            in s2\<lparr>startPoint := pt, startSize := panel_offsetWidth v\<rparr>)))"

definition onMoveMobile :: "ui_event \<Rightarrow> bottomsheet \<Rightarrow> bottomsheet" where
  "onMoveMobile e s =
     (let currentPoint = (case e of TouchEvent x y t et \<Rightarrow> y | _ \<Rightarrow> 0);
          diff = startPoint s - currentPoint;
          prev = prevPoint s;
          s1 = s\<lparr>prevPoint := currentPoint\<rparr>;
          delta = currentPoint - prev;
          s2 = s1\<lparr>totalMovement := totalMovement s1 + \<bar>delta\<bar>\<rparr>;
          s3 = (if totalMovement s2 > 5 then s2\<lparr>hasMoved := True\<rparr> else s2);
          chain = (case event_target e of None \<Rightarrow> [] | Some t \<Rightarrow> parent_chain t)
      in
      if anyScrollableAncestorCanMove (panel s3) chain delta then s3\<lparr>isDragging := False\<rparr>
      else
        (let newSize = max (minSize s3) (min (maxSize s3) (startSize s3 + diff))
         in s3\<lparr>style_height := set_px newSize (style_height s3)\<rparr>))"

definition onMoveDesktop :: "ui_event \<Rightarrow> bottomsheet \<Rightarrow> bottomsheet" where
  "onMoveDesktop e s =
     (let currentPoint = (case e of MouseEvent x y t \<Rightarrow> x | _ \<Rightarrow> 0);
          diff = startPoint s - currentPoint;
          s1 = s\<lparr>totalMovement := totalMovement s + \<bar>diff - lastDiff s\<bar>\<rparr>;
          s2 = s1\<lparr>lastDiff := diff\<rparr>;
          s3 = (if totalMovement s2 > 5 then s2\<lparr>hasMoved := True\<rparr> else s2);
          newSize = max (minSize s3) (min (maxSize s3) (startSize s3 + diff))
      in s3\<lparr>style_width := set_px newSize (style_width s3)\<rparr>)"

definition onMove :: "env \<Rightarrow> ui_event \<Rightarrow> bottomsheet \<Rightarrow> bottomsheet" where
  "onMove v e s =
     (if \<not> isDragging s then s
      else
        (let s1 = (if isMobile v \<and> isTouchEvent e then onMoveMobile e s
                   else if isMouseEvent e then onMoveDesktop e s
                   else s)
         in dispatchEvent ''bottomsheet:dragging'' s1))"

definition onEndMobile :: "env \<Rightarrow> bottomsheet \<Rightarrow> bottomsheet" where
  "onEndMobile v s =
     (let s1 = (case header_clientHeight v of
                  None \<Rightarrow> s
                | Some h \<Rightarrow>
                   (case dragHandle_clientHeight v of
                      None \<Rightarrow> s
                    | Some d \<Rightarrow> s\<lparr>minSize := h + d\<rparr>));
          finalSize = panel_offsetHeight v;
          midThreshold = maxSize s1 * 0.6
      in
      if (finalSize < startSize s1 \<and> finalSize > midThreshold)
         \<or> (finalSize > startSize s1 \<and> finalSize < midThreshold)
      then setMidSize v s1
      else if finalSize < startSize s1 \<and> finalSize < midThreshold then setMinSize v s1
      else setMaxSize v s1)"

definition onEndDesktop :: "env \<Rightarrow> bottomsheet \<Rightarrow> bottomsheet" where
  "onEndDesktop v s =
     (let s1 = s\<lparr>minSize := 40\<rparr>;
          finalSize = panel_offsetWidth v
      in
      if finalSize < startSize s1 then setMinSize v s1 else setMaxSize v s1)"

definition onEnd :: "env \<Rightarrow> bottomsheet \<Rightarrow> bottomsheet" where
  "onEnd v s =
     (if \<not> isDragging s then s
      else
        (let dragDuration = now v - dragStart s;
             hadMovement = hasMoved s;
             s1 = s\<lparr>hasMoved := False, isDragging := False\<rparr>
         in
         if \<not> hadMovement then s1
         else if dragDuration > 500 then s1
         else if isMobile v then onEndMobile v s1
         else onEndDesktop v s1))"

subsection \<open>The hold helper\<close>

text \<open>\<^verbatim>\<open>hold(fn, delay)\<close> keeps one timer. \<open>hold_start\<close> and \<open>hold_cancel\<close> are its two
  methods; \<open>hold_fire\<close> is the timer's callback running after the delay, which calls
  \<open>onStart\<close> with the event of the press and then clears the timer.\<close>

definition hold_start :: "ui_event \<Rightarrow> bottomsheet \<Rightarrow> bottomsheet" where
  "hold_start e s = (if holdTimer s \<noteq> None then s else s\<lparr>holdTimer := Some e\<rparr>)"

definition hold_cancel :: "bottomsheet \<Rightarrow> bottomsheet" where
  "hold_cancel s = (if holdTimer s \<noteq> None then s\<lparr>holdTimer := None\<rparr> else s)"

definition hold_fire :: "env \<Rightarrow> bottomsheet \<Rightarrow> bottomsheet" where
  "hold_fire v s =
     (case holdTimer s of
        None \<Rightarrow> s
      | Some e \<Rightarrow> (onStart v e s)\<lparr>holdTimer := None\<rparr>)"

subsection \<open>Everything that can happen to a controller\<close>

datatype action =
    Open env
  | Close
  | Minimize env
  | UpdatePanel
  | ShowPanelContent
  | HidePanelContent
  | SetMinSize env
  | SetMidSize env
  | SetMaxSize env
  | ContainerClick env bool
  | Press ui_event
  | HoldCancel
  | HoldFire env
  | Move env ui_event
  | Release env

fun step :: "bottomsheet \<Rightarrow> action \<Rightarrow> bottomsheet" where
  "step s (Open v) = open_bs v s"
| "step s Close = close_bs s"
| "step s (Minimize v) = minimize v s"
| "step s UpdatePanel = updatePanel s"
| "step s ShowPanelContent = showPanelContent s"
| "step s HidePanelContent = hidePanelContent s"
| "step s (SetMinSize v) = setMinSize v s"
| "step s (SetMidSize v) = setMidSize v s"
| "step s (SetMaxSize v) = setMaxSize v s"
| "step s (ContainerClick v inside) = containerClick v inside s"
| "step s (Press e) = hold_start e s"
| "step s HoldCancel = hold_cancel s"
| "step s (HoldFire v) = hold_fire v s"
| "step s (Move v e) = onMove v e s"
| "step s (Release v) = onEnd v s"

definition run :: "bottomsheet \<Rightarrow> action list \<Rightarrow> bottomsheet" where
  "run s acts = foldl step s acts"

section \<open>The instance registry\<close>

text \<open>The module variable \<^verbatim>\<open>bottomSheetInstance\<close>: a reference or \<^verbatim>\<open>null\<close>.\<close>

type_synonym 'a registry = "'a option"

datatype registry_error = NotInitialized

definition registry_init :: "'a registry" where
  "registry_init = None"

definition setBottomSheet :: "'a \<Rightarrow> 'a registry \<Rightarrow> 'a registry" where
  "setBottomSheet inst r = Some inst"

definition getBottomSheet :: "'a registry \<Rightarrow> 'a option" where
  "getBottomSheet r = r"

definition getBottomSheetOrThrow :: "'a registry \<Rightarrow> registry_error + 'a" where
  "getBottomSheetOrThrow r = (case r of None \<Rightarrow> Inl NotInitialized | Some inst \<Rightarrow> Inr inst)"

definition isBottomSheetInitialized :: "'a registry \<Rightarrow> bool" where
  "isBottomSheetInitialized r = (r \<noteq> None)"

definition clearBottomSheet :: "'a registry \<Rightarrow> 'a registry" where
  "clearBottomSheet r = None"

datatype 'a registry_op = SetOp 'a | ClearOp

fun registry_step :: "'a registry \<Rightarrow> 'a registry_op \<Rightarrow> 'a registry" where
  "registry_step r (SetOp inst) = setBottomSheet inst r"
| "registry_step r ClearOp = clearBottomSheet r"

section \<open>Batch processing\<close>

text \<open>The batch size, the current index and the loop variable are JavaScript numbers,
  here reals. \<^verbatim>\<open>items[i]\<close> is the element at \<open>i\<close> when \<open>i\<close> is a whole number from \<open>0\<close>
  up to the length, and \<^verbatim>\<open>undefined\<close> (here \<open>None\<close>) otherwise.\<close>

definition item_at :: "'a list \<Rightarrow> real \<Rightarrow> 'a option" where
  "item_at items i =
     (if i = of_int \<lfloor>i\<rfloor> \<and> 0 \<le> i \<and> i < real (length items) then Some (items ! nat \<lfloor>i\<rfloor>)
      else None)"

text \<open>The values of \<open>i\<close> in \<^verbatim>\<open>for (let i = currentIndex; i < endIndex; i++)\<close>.\<close>

function batch_indices :: "real \<Rightarrow> real \<Rightarrow> real list" where
  "batch_indices i endIndex =
     (if i < endIndex then i # batch_indices (i + 1) endIndex else [])"
  by pat_completeness auto
termination
  by (relation "measure (\<lambda>(i, endIndex). nat \<lceil>endIndex - i\<rceil>)") (auto, linarith)

declare batch_indices.simps [simp del]

text \<open>\<^verbatim>\<open>processBatch\<close>, the closure that reschedules itself. \<open>currentIndex\<close> is the closure's
  variable; \<open>calls\<close> collects the arguments of every call of the callback, in order, and
  \<open>batches\<close> counts the batches that ran. The callback is taken not to change the array. A
  run that reschedules itself for ever has no result.\<close>

partial_function (option) processBatch ::
  "'a list \<Rightarrow> real \<Rightarrow> real \<Rightarrow> ('a option \<times> real) list \<Rightarrow> nat
     \<Rightarrow> (('a option \<times> real) list \<times> nat) option"
where
  "processBatch items batchSize currentIndex calls batches =
     (let endIndex = min (currentIndex + batchSize) (real (length items));
          calls' = calls @ map (\<lambda>i. (item_at items i, i)) (batch_indices currentIndex endIndex)
      in
      if endIndex < real (length items)
      then processBatch items batchSize endIndex calls' (Suc batches)
      else Some (calls', Suc batches))"

definition processBatchAsync ::
  "'a list \<Rightarrow> real \<Rightarrow> (('a option \<times> real) list \<times> nat) option" where
  "processBatchAsync items batchSize = processBatch items batchSize 0 [] 0"

section \<open>What it means for a size to lie within bounds\<close>

text \<open>An inline size lies within \<open>[lo, hi]\<close> when it is a pixel length in that interval. The empty
  value and a percentage are resolved by the page's style sheet and layout.\<close>

definition size_within :: "real \<Rightarrow> real \<Rightarrow> css_size \<Rightarrow> bool" where
  "size_within lo hi sz = (case sz of Px x \<Rightarrow> lo \<le> x \<and> x \<le> hi | _ \<Rightarrow> False)"

section \<open>Example pages and gestures\<close>

text \<open>A phone (screen 390 wide, container 800 high, header 30 and drag handle 10 high) and a
  desktop screen, at clock value \<open>t\<close>, with the panel currently laid out at the given height
  (phone) or width (desktop).\<close>

definition phone :: "int \<Rightarrow> real \<Rightarrow> env" where
  "phone t h =
     \<lparr> screen_width = 390, now = t, panel_offsetHeight = h, panel_offsetWidth = 390,
       container_clientHeight = 800, header_clientHeight = Some 30,
       dragHandle_clientHeight = Some 10 \<rparr>"

definition desktop :: "int \<Rightarrow> real \<Rightarrow> env" where
  "desktop t w =
     \<lparr> screen_width = 1440, now = t, panel_offsetHeight = 900, panel_offsetWidth = w,
       container_clientHeight = 900, header_clientHeight = Some 30,
       dragHandle_clientHeight = Some 10 \<rparr>"

text \<open>A press on the drag handle (element 1), a child of the panel (element 0).\<close>

definition on_handle :: target where
  "on_handle =
     \<lparr> is_element = True, closest_interactive = False, closest_drag_handle = True,
       closest_header = False, closest_content = False,
       parent_chain =
         [\<lparr>el_id = 1, overflowY = ''visible'', scrollTop = 0, scrollHeight = 10, clientHeight = 10\<rparr>,
          \<lparr>el_id = 0, overflowY = ''visible'', scrollTop = 0, scrollHeight = 600, clientHeight = 600\<rparr>] \<rparr>"

definition touch :: "real \<Rightarrow> ui_event" where
  "touch y = TouchEvent 100 y (Some on_handle) (Some on_handle)"

definition mouse :: "real \<Rightarrow> ui_event" where
  "mouse x = MouseEvent x 300 (Some on_handle)"

definition fresh :: bottomsheet where
  "fresh = BottomSheet_new 0 None None None"

text \<open>On the phone: open, press at \<open>y = 500\<close> with the panel 200 high, hold until the timer
  fires at time 1000, move the finger up to \<open>y = 450\<close>.\<close>

definition dragging_phone :: bottomsheet where
  "dragging_phone =
     run fresh [Open (phone 0 0), Press (touch 500), HoldFire (phone 1000 200),
                Move (phone 1050 200) (touch 450)]"

text \<open>On the desktop: open, press at \<open>x = 1000\<close> with the panel 500 wide, hold until the timer
  fires, move the mouse right to \<open>x = 1100\<close>.\<close>

definition dragging_desktop :: bottomsheet where
  "dragging_desktop =
     run fresh [Open (desktop 0 0), Press (mouse 1000), HoldFire (desktop 1000 500),
                Move (desktop 1050 500) (mouse 1100)]"

text \<open>A phone page whose header is 300 high and whose drag handle is 120 high. On it: open
  (the bounds become 420 and 760), press at \<open>y = 300\<close> with the panel 700 high, hold until
  the timer fires, move the finger down to \<open>y = 500\<close>.\<close>

definition tall_header_phone :: "int \<Rightarrow> real \<Rightarrow> env" where
  "tall_header_phone t h =
     \<lparr> screen_width = 390, now = t, panel_offsetHeight = h, panel_offsetWidth = 390,
       container_clientHeight = 800, header_clientHeight = Some 300,
       dragHandle_clientHeight = Some 120 \<rparr>"

definition dragging_tall_header :: bottomsheet where
  "dragging_tall_header =
     run fresh [Open (tall_header_phone 0 0), Press (touch 300),
                HoldFire (tall_header_phone 1000 700),
                Move (tall_header_phone 1050 700) (touch 500)]"

text \<open>On the desktop, the first drag is released after 700 ms (too late for a snap, the panel
  stays 400 wide). Then a second press at \<open>x = 1000\<close>, held until the timer fires at time
  5000, and a move of the mouse by one pixel to \<open>x = 1001\<close>.\<close>

definition second_desktop_drag :: bottomsheet where
  "second_desktop_drag =
     run dragging_desktop
       [Release (desktop 1700 400), Press (mouse 1000), HoldFire (desktop 5000 400),
        Move (desktop 5050 400) (mouse 1001)]"

text \<open>A phone page on which the header and the drag handle measure 470 and 40. The
  controller is never opened there, so its bounds stay the defaults 40 and 500. Press at
  \<open>y = 500\<close> with the panel 560 high, hold until the timer fires, move the finger down to
  \<open>y = 800\<close>.\<close>

definition grown_header_phone :: "int \<Rightarrow> real \<Rightarrow> env" where
  "grown_header_phone t h =
     \<lparr> screen_width = 390, now = t, panel_offsetHeight = h, panel_offsetWidth = 390,
       container_clientHeight = 800, header_clientHeight = Some 470,
       dragHandle_clientHeight = Some 40 \<rparr>"

definition dragging_grown_header :: bottomsheet where
  "dragging_grown_header =
     run fresh [Press (touch 500), HoldFire (grown_header_phone 1000 560),
                Move (grown_header_phone 1050 560) (touch 800)]"

text \<open>A list of elements for the scroll classifier: a plain element, a scrollable list
  scrolled down by 12 pixels with more content below, the panel, and the page behind it.\<close>

definition scroll_chain :: "element list" where
  "scroll_chain =
     [\<lparr>el_id = 3, overflowY = ''visible'', scrollTop = 0, scrollHeight = 20, clientHeight = 20\<rparr>,
      \<lparr>el_id = 2, overflowY = ''auto'', scrollTop = 12, scrollHeight = 900, clientHeight = 300\<rparr>,
      \<lparr>el_id = 0, overflowY = ''visible'', scrollTop = 0, scrollHeight = 600, clientHeight = 600\<rparr>,
      \<lparr>el_id = 9, overflowY = ''scroll'', scrollTop = 50, scrollHeight = 5000, clientHeight = 800\<rparr>]"

section \<open>Evaluating the examples\<close>

lemmas preset_defs = setMaxSize_def setMinSize_def setMidSize_def showPanelContent_def
  hidePanelContent_def dispatchEvent_def set_px_def

lemmas drag_defs = onStart_def onMove_def onMoveMobile_def onMoveDesktop_def onEnd_def
  onEndMobile_def onEndDesktop_def hold_start_def hold_cancel_def hold_fire_def isDragZone_def
  isInteractiveTarget_def canScrollYInDirection_def isScrollableY_def

lemmas example_defs = phone_def desktop_def on_handle_def touch_def mouse_def fresh_def
  BottomSheet_new_def isMobile_def run_def open_bs_def updateSizeLimits_def

lemma dragging_phone_eq:
  "dragging_phone =
     \<lparr> panel = 0, maxSize = 760, minSize = 40, closeOnOverlayClick = False,
       startPoint = 500, startSize = 200, prevPoint = 450, lastDiff = 0,
       isDragging = True, isOpen = True, isMinimized = False, isMaximized = False,
       isUpdating = False, dragStart = 1000, hasMoved = True, totalMovement = 50,
       style_height = Px 250, style_width = Unset, holdTimer = None,
       dispatched = [''bottomsheet:open'', ''bottomsheet:dragging''] \<rparr>"
  by (simp add: dragging_phone_def example_defs drag_defs preset_defs Let_def)

lemma dragging_desktop_eq:
  "dragging_desktop =
     \<lparr> panel = 0, maxSize = 500, minSize = 40, closeOnOverlayClick = False,
       startPoint = 1000, startSize = 500, prevPoint = 0, lastDiff = - 100,
       isDragging = True, isOpen = True, isMinimized = False, isMaximized = False,
       isUpdating = False, dragStart = 1000, hasMoved = True, totalMovement = 100,
       style_height = Unset, style_width = Px 400, holdTimer = None,
       dispatched = [''bottomsheet:open'', ''bottomsheet:dragging''] \<rparr>"
  by (simp add: dragging_desktop_def example_defs drag_defs preset_defs Let_def)

lemma dragging_tall_header_eq:
  "dragging_tall_header =
     \<lparr> panel = 0, maxSize = 760, minSize = 420, closeOnOverlayClick = False,
       startPoint = 300, startSize = 700, prevPoint = 500, lastDiff = 0,
       isDragging = True, isOpen = True, isMinimized = False, isMaximized = False,
       isUpdating = False, dragStart = 1000, hasMoved = True, totalMovement = 200,
       style_height = Px 500, style_width = Unset, holdTimer = None,
       dispatched = [''bottomsheet:open'', ''bottomsheet:dragging''] \<rparr>"
  by (simp add: dragging_tall_header_def tall_header_phone_def example_defs drag_defs
      preset_defs Let_def)

lemma second_desktop_drag_eq:
  "second_desktop_drag =
     \<lparr> panel = 0, maxSize = 500, minSize = 40, closeOnOverlayClick = False,
       startPoint = 1000, startSize = 400, prevPoint = 0, lastDiff = - 1,
       isDragging = True, isOpen = True, isMinimized = False, isMaximized = False,
       isUpdating = False, dragStart = 5000, hasMoved = True, totalMovement = 99,
       style_height = Unset, style_width = Px 399, holdTimer = None,
       dispatched = [''bottomsheet:open'', ''bottomsheet:dragging'', ''bottomsheet:dragging''] \<rparr>"
  by (simp add: second_desktop_drag_def dragging_desktop_eq example_defs drag_defs
      preset_defs Let_def)

lemma dragging_grown_header_eq:
  "dragging_grown_header =
     \<lparr> panel = 0, maxSize = 500, minSize = 40, closeOnOverlayClick = False,
       startPoint = 500, startSize = 560, prevPoint = 800, lastDiff = 0,
       isDragging = True, isOpen = True, isMinimized = False, isMaximized = False,
       isUpdating = False, dragStart = 1000, hasMoved = True, totalMovement = 300,
       style_height = Px 260, style_width = Unset, holdTimer = None,
       dispatched = [''bottomsheet:dragging''] \<rparr>"
  by (simp add: dragging_grown_header_def grown_header_phone_def example_defs drag_defs
      preset_defs Let_def)

section \<open>The instance registry\<close>

text \<open>C9: the checked getter fails with the not-initialized error before any set and after
  a clear, and returns exactly the reference set last after a set; the tolerant getter
  returns the absent value where the checked one fails; the presence check is false
  initially and after a clear, true after a set. The operations before the last one are
  arbitrary.\<close>

theorem registry_last_operation_decides:
  "getBottomSheetOrThrow (registry_init :: 'a registry) = Inl NotInitialized
   \<and> getBottomSheet (registry_init :: 'a registry) = None
   \<and> isBottomSheetInitialized (registry_init :: 'a registry) = False
   \<and> getBottomSheetOrThrow (foldl registry_step r (ops @ [SetOp x])) = Inr x
   \<and> getBottomSheet (foldl registry_step r (ops @ [SetOp x])) = Some x
   \<and> isBottomSheetInitialized (foldl registry_step r (ops @ [SetOp x])) = True
   \<and> getBottomSheetOrThrow (foldl registry_step r (ops @ [ClearOp])) = Inl NotInitialized
   \<and> getBottomSheet (foldl registry_step r (ops @ [ClearOp])) = None
   \<and> isBottomSheetInitialized (foldl registry_step r (ops @ [ClearOp])) = False"
  by (simp add: getBottomSheetOrThrow_def getBottomSheet_def isBottomSheetInitialized_def
      registry_init_def setBottomSheet_def clearBottomSheet_def)

theorem registry_last_operation_decides_witness:
  "getBottomSheetOrThrow (foldl registry_step registry_init [SetOp (1::nat), ClearOp, SetOp 2]) = Inr 2
   \<and> getBottomSheetOrThrow (foldl registry_step registry_init [SetOp (1::nat), ClearOp])
       = Inl NotInitialized
   \<and> getBottomSheet (foldl registry_step registry_init [SetOp (1::nat), ClearOp]) = None"
  using registry_last_operation_decides [of registry_init "[SetOp (1::nat), ClearOp]" 2]
    registry_last_operation_decides [of registry_init "[SetOp (1::nat)]" 2]
  by auto

section \<open>The scroll-conflict classifier\<close>

lemma canScrollYInDirection_iff:
  "canScrollYInDirection p e delta =
     (el_id e \<noteq> p \<and> (overflowY e = ''auto'' \<or> overflowY e = ''scroll'')
      \<and> scrollHeight e > clientHeight e
      \<and> (if delta > 0 then scrollTop e > 5
          else delta < 0 \<and> scrollTop e + clientHeight e < scrollHeight e))"
  by (simp add: canScrollYInDirection_def isScrollableY_def)

text \<open>C6: for a nonzero delta the classifier answers true exactly when, among the elements
  from the start element up to but excluding the panel, one has computed overflow-y auto
  or scroll, has more content than its box, and has room in the direction of the move:
  \<open>scrollTop > 5\<close> for a positive delta, \<open>scrollTop + clientHeight < scrollHeight\<close> for a
  negative one.\<close>

theorem anyScrollableAncestorCanMove_iff:
  "delta \<noteq> 0 \<Longrightarrow>
   anyScrollableAncestorCanMove p chain delta =
     (\<exists>e \<in> set (takeWhile (\<lambda>e. el_id e \<noteq> p) chain).
        (overflowY e = ''auto'' \<or> overflowY e = ''scroll'')
        \<and> scrollHeight e > clientHeight e
        \<and> (if delta > 0 then scrollTop e > 5
            else scrollTop e + clientHeight e < scrollHeight e))"
proof (induction chain)
  case Nil
  then show ?case by simp
next
  case (Cons e es)
  show ?case
  proof (cases "el_id e = p")
    case True
    then show ?thesis by simp
  next
    case False
    with Cons show ?thesis
      by (auto simp: canScrollYInDirection_iff)
  qed
qed

theorem anyScrollableAncestorCanMove_iff_witness:
  "(1::real) \<noteq> 0 \<and> anyScrollableAncestorCanMove 0 scroll_chain 1
   \<and> (\<exists>e \<in> set (takeWhile (\<lambda>e. el_id e \<noteq> 0) scroll_chain).
        overflowY e = ''auto'' \<and> scrollTop e > 5)"
  using anyScrollableAncestorCanMove_iff [of 1 0 scroll_chain]
  by (simp add: scroll_chain_def)

text \<open>The first qualifying element ends the walk: whatever follows it in the chain does not
  matter.\<close>

lemma anyScrollableAncestorCanMove_first:
  "canScrollYInDirection p e delta \<Longrightarrow>
   \<forall>x \<in> set pre. el_id x \<noteq> p \<and> \<not> canScrollYInDirection p x delta \<Longrightarrow>
   anyScrollableAncestorCanMove p (pre @ e # post) delta"
  by (induction pre) (auto simp: canScrollYInDirection_iff)

section \<open>Batch processing\<close>

lemma batch_indices_lt: "i < e \<Longrightarrow> batch_indices i e = i # batch_indices (i + 1) e"
  by (subst batch_indices.simps) simp

lemma batch_indices_ge: "\<not> i < e \<Longrightarrow> batch_indices i e = []"
  by (subst batch_indices.simps) simp

text \<open>Between whole numbers the loop visits the whole numbers.\<close>

lemma batch_indices_int:
  "batch_indices (of_int c) (of_int e) = map of_int [c..e - 1]"
proof (induction "nat (e - c)" arbitrary: c)
  case 0
  then have "\<not> (of_int c :: real) < of_int e" by simp
  with 0 show ?case by (simp add: batch_indices_ge)
next
  case (Suc n)
  then have lt: "c < e" by linarith
  have "n = nat (e - (c + 1))" using Suc.hyps(2) by linarith
  from Suc.hyps(1)[OF this]
  have "batch_indices (of_int (c + 1)) (of_int e) = map of_int [c + 1..e - 1]" .
  moreover have "[c..e - 1] = c # [c + 1..e - 1]" using lt by (simp add: upto_rec1)
  ultimately show ?case using lt by (simp add: batch_indices_lt)
qed

lemma upto_split_mid:
  assumes "i \<le> j" "j \<le> k + 1"
  shows "[i..k] = [i..j - 1] @ [j..k]"
proof (cases "j \<le> k")
  case True
  with assms show ?thesis by (simp add: upto_split1)
next
  case False
  with assms have "j = k + 1" by simp
  then show ?thesis by simp
qed

text \<open>From any index not beyond the end, a batch size of at least one reaches the end: every
  batch that reschedules advances the index by the batch size.\<close>

lemma processBatch_terminates:
  assumes "1 \<le> b" "c \<le> real (length items)"
  shows "\<exists>cs n. processBatch items b c calls k = Some (cs, n)
         \<and> k < n \<and> n \<le> k + max 1 (nat \<lceil>real (length items) - c\<rceil>)"
  using assms
proof (induction "nat \<lceil>real (length items) - c\<rceil>" arbitrary: c calls k rule: less_induct)
  case less
  let ?L = "real (length items)"
  let ?e = "min (c + b) ?L"
  let ?cs = "calls @ map (\<lambda>i. (item_at items i, i)) (batch_indices c ?e)"
  show ?case
  proof (cases "?e < ?L")
    case False
    have "processBatch items b c calls k = Some (?cs, Suc k)"
      by (subst processBatch.simps) (simp only: Let_def if_not_P[OF False])
    then show ?thesis by simp
  next
    case True
    then have e: "?e = c + b" by simp
    have lt: "nat \<lceil>?L - ?e\<rceil> < nat \<lceil>?L - c\<rceil>"
      using True less.prems e by linarith
    have pos: "1 \<le> nat \<lceil>?L - ?e\<rceil>" using True by linarith
    obtain cs n where n: "processBatch items b ?e ?cs (Suc k) = Some (cs, n)"
        "Suc k < n" "n \<le> Suc k + max 1 (nat \<lceil>?L - ?e\<rceil>)"
      using less.hyps[OF lt less.prems(1) min.cobounded2, of ?cs "Suc k"] by blast
    have unf: "processBatch items b c calls k = processBatch items b ?e ?cs (Suc k)"
      by (subst processBatch.simps) (simp only: Let_def if_P[OF True])
    have "n \<le> k + max 1 (nat \<lceil>?L - c\<rceil>)" using n(3) lt pos by linarith
    with n unf show ?thesis by auto
  qed
qed

text \<open>With a whole batch size of at least one, from a whole index inside the array, the
  remaining indices are visited once each, in order.\<close>

lemma processBatch_integer_calls:
  assumes "1 \<le> b" "0 \<le> c" "c \<le> int (length items)"
  shows "\<exists>n. processBatch items (of_int b) (of_int c) calls k =
           Some (calls @ map (\<lambda>i. (item_at items (of_int i), of_int i)) [c..int (length items) - 1], n)"
  using assms
proof (induction "length items - nat c" arbitrary: c calls k rule: less_induct)
  case less
  let ?L = "int (length items)"
  let ?e = "min (c + b) ?L"
  let ?f = "\<lambda>i::real. (item_at items i, i)"
  let ?g = "\<lambda>i::int. (item_at items (of_int i), of_int i :: real)"
  have er: "min (of_int c + of_int b) (real (length items)) = of_int ?e"
    by (simp add: min_def)
  have idx: "map ?f (batch_indices (of_int c) (of_int ?e)) = map ?g [c..?e - 1]"
    by (simp only: batch_indices_int map_map o_def)
  show ?case
  proof (cases "?e < ?L")
    case False
    then have e: "?e = ?L" by simp
    have F: "\<not> (of_int ?e :: real) < real (length items)" using False by linarith
    have "processBatch items (of_int b) (of_int c) calls k
            = Some (calls @ map ?g [c..?e - 1], Suc k)"
      by (subst processBatch.simps) (simp only: Let_def er if_not_P[OF F] idx)
    then show ?thesis by (simp only: e) blast
  next
    case True
    then have e: "?e = c + b" by simp
    have T: "(of_int ?e :: real) < real (length items)" using True by linarith
    have e0: "0 \<le> ?e" using less.prems by simp
    have lt: "length items - nat ?e < length items - nat c"
      using True less.prems e by linarith
    obtain n where n:
      "processBatch items (of_int b) (of_int ?e) (calls @ map ?g [c..?e - 1]) (Suc k) =
           Some ((calls @ map ?g [c..?e - 1]) @ map ?g [?e..?L - 1], n)"
      using less.hyps[OF lt less.prems(1) e0 min.cobounded2,
          of "calls @ map ?g [c..?e - 1]" "Suc k"]
      by blast
    have split: "[c..?L - 1] = [c..?e - 1] @ [?e..?L - 1]"
      using upto_split_mid[of c ?e "?L - 1"] less.prems True e by simp
    have unf: "processBatch items (of_int b) (of_int c) calls k =
         processBatch items (of_int b) (of_int ?e) (calls @ map ?g [c..?e - 1]) (Suc k)"
      by (subst processBatch.simps) (simp only: Let_def er if_P[OF T] idx)
    with n split show ?thesis by (intro exI[of _ n]) simp
  qed
qed

text \<open>C10 (as the code has it): for every array and every batch size of at least one, the
  processing ends after finitely many batches (at least one, at most one per item); and
  when the batch size is moreover a whole number, the callback has then been called
  exactly once for each index below the length, with the item at that index, in
  increasing order of the index.\<close>

theorem processBatchAsync_visits_each_index_once:
  "(1 \<le> batchSize \<longrightarrow>
      (\<exists>cs n. processBatchAsync items batchSize = Some (cs, n)
         \<and> 1 \<le> n \<and> n \<le> max 1 (length items)))
   \<and> (1 \<le> batchSize \<and> batchSize \<in> \<int> \<longrightarrow>
      (\<exists>n. processBatchAsync items batchSize =
            Some (map (\<lambda>i. (Some (items ! i), real i)) [0..<length items], n)
          \<and> 1 \<le> n \<and> n \<le> max 1 (length items)))"
proof (intro conjI impI)
  assume b: "1 \<le> batchSize"
  from processBatch_terminates[OF b, of 0 items "[]" 0]
  obtain cs n where "processBatch items batchSize 0 [] 0 = Some (cs, n)" "0 < n"
    "n \<le> 0 + max 1 (nat \<lceil>real (length items) - 0\<rceil>)" by auto
  then show "\<exists>cs n. processBatchAsync items batchSize = Some (cs, n)
      \<and> 1 \<le> n \<and> n \<le> max 1 (length items)"
    unfolding processBatchAsync_def by (intro exI[of _ cs] exI[of _ n]) simp
next
  assume "1 \<le> batchSize \<and> batchSize \<in> \<int>"
  then have b: "1 \<le> batchSize" and bi: "batchSize = of_int \<lfloor>batchSize\<rfloor>"
    by (auto elim: Ints_cases)
  have b1: "1 \<le> \<lfloor>batchSize\<rfloor>" using b by linarith
  from processBatch_terminates[OF b, of 0 items "[]" 0]
  obtain cs n where t: "processBatch items batchSize 0 [] 0 = Some (cs, n)" "0 < n"
    "n \<le> 0 + max 1 (nat \<lceil>real (length items) - 0\<rceil>)" by auto
  from processBatch_integer_calls[OF b1, of 0 items "[]" 0]
  obtain m where "processBatch items (of_int \<lfloor>batchSize\<rfloor>) (of_int 0) [] 0 =
      Some ([] @ map (\<lambda>i. (item_at items (of_int i), of_int i)) [0..int (length items) - 1], m)"
    by auto
  with bi have c: "processBatch items batchSize 0 [] 0 =
      Some (map (\<lambda>i. (item_at items (of_int i), of_int i)) [0..int (length items) - 1], m)"
    by simp
  have "map (\<lambda>i. (item_at items (of_int i), of_int i :: real)) [0..int (length items) - 1]
        = map (\<lambda>i. (Some (items ! i), real i)) [0..<length items]"
    by (rule nth_equalityI) (auto simp: item_at_def)
  with c t show "\<exists>n. processBatchAsync items batchSize =
            Some (map (\<lambda>i. (Some (items ! i), real i)) [0..<length items], n)
          \<and> 1 \<le> n \<and> n \<le> max 1 (length items)"
    unfolding processBatchAsync_def by (intro exI[of _ n]) simp
qed

theorem processBatchAsync_visits_each_index_once_witness:
  "(1::real) \<le> 2 \<and> (2::real) \<in> \<int>
   \<and> (\<exists>n. processBatchAsync [10, 20, 30 :: nat] 2 =
            Some ([(Some 10, 0), (Some 20, 1), (Some 30, 2)], n) \<and> 1 \<le> n \<and> n \<le> 3)"
  using processBatchAsync_visits_each_index_once [of 2 "[10, 20, 30 :: nat]"]
  by (simp add: upt_rec numeral_3_eq_3)

text \<open>The claim as it stands fails for a batch size that is not a whole number. With three
  items and a batch size of 1.5 the first batch calls the callback at 0 and 1 and leaves the
  index at 1.5; the second batch calls it at 1.5 and 2.5, where the array has no element.
  The callback is never called at index 2.\<close>

theorem processBatchAsync_fractional_batchSize_skips_index:
  "(1::real) \<le> 1.5
   \<and> processBatchAsync [10, 20, 30 :: nat] 1.5
       = Some ([(Some 10, 0), (Some 20, 1), (None, 1.5), (None, 2.5)], 2)"
  unfolding processBatchAsync_def
  apply (subst processBatch.simps)
  apply (subst processBatch.simps)
  apply (simp add: Let_def batch_indices_lt batch_indices_ge item_at_def)
  done

text \<open>The bound on the batch size is needed: with a batch size of zero or less the index
  never reaches the end of a nonempty array, and the processing reschedules itself for
  ever.\<close>

lemma processBatch_returns_only_at_end:
  assumes "processBatch items b c calls k = Some r"
  shows "b \<le> 0 \<longrightarrow> real (length items) \<le> c"
proof (rule processBatch.raw_induct
    [where P = "\<lambda>items b c calls k r. b \<le> 0 \<longrightarrow> real (length items) \<le> c", OF _ assms])
  fix f :: "'a list \<Rightarrow> real \<Rightarrow> real \<Rightarrow> ('a option \<times> real) list \<Rightarrow> nat
              \<Rightarrow> (('a option \<times> real) list \<times> nat) option"
    and items b c calls k r
  assume IH: "\<And>items b c calls k r. f items b c calls k = Some r \<Longrightarrow>
                b \<le> 0 \<longrightarrow> real (length items) \<le> c"
    and unfolded:
      "(let endIndex = min (c + b) (real (length items));
            calls' = calls @ map (\<lambda>i. (item_at items i, i)) (batch_indices c endIndex)
        in if endIndex < real (length items) then f items b endIndex calls' (Suc k)
           else Some (calls', Suc k)) = Some r"
  show "b \<le> 0 \<longrightarrow> real (length items) \<le> c"
  proof
    assume b: "b \<le> 0"
    show "real (length items) \<le> c"
    proof (cases "min (c + b) (real (length items)) < real (length items)")
      case True
      have "f items b (min (c + b) (real (length items)))
          (calls @ map (\<lambda>i. (item_at items i, i))
             (batch_indices c (min (c + b) (real (length items)))))
          (Suc k) = Some r"
        using unfolded unfolding Let_def if_P[OF True] .
      from IH[OF this] b True show ?thesis by simp
    next
      case False
      with b show ?thesis by simp
    qed
  qed
qed

lemma processBatchAsync_needs_positive_batchSize:
  "batchSize \<le> 0 \<Longrightarrow> items \<noteq> [] \<Longrightarrow> processBatchAsync items batchSize = None"
proof (rule ccontr)
  assume b: "batchSize \<le> 0" and ne: "items \<noteq> []"
    and "processBatchAsync items batchSize \<noteq> None"
  then obtain r where "processBatch items batchSize 0 [] 0 = Some r"
    by (auto simp: processBatchAsync_def)
  from processBatch_returns_only_at_end[OF this] b have "real (length items) \<le> 0" by simp
  with ne show False by simp
qed

section \<open>Movement during a drag\<close>

text \<open>What one move adds to the accumulated movement. A touch move on a phone adds the
  distance from the previous point, which \<open>onStart\<close> sets to the start point. A mouse move
  adds the distance between the new offset from the start point and \<open>lastDiff\<close>, the offset
  recorded by the previous mouse move; \<open>onStart\<close> does not reset \<open>lastDiff\<close>.\<close>

lemma onMove_touch_movement:
  assumes "isDragging s" "isMobile v"
  shows "totalMovement (onMove v (TouchEvent x y t et) s) = totalMovement s + \<bar>y - prevPoint s\<bar>
       \<and> prevPoint (onMove v (TouchEvent x y t et) s) = y
       \<and> hasMoved (onMove v (TouchEvent x y t et) s)
           = (hasMoved s \<or> totalMovement s + \<bar>y - prevPoint s\<bar> > 5)"
  using assms
  by (simp add: onMove_def onMoveMobile_def dispatchEvent_def Let_def)

lemma onMove_mouse_movement:
  assumes "isDragging s"
  shows "totalMovement (onMove v (MouseEvent x y t) s)
           = totalMovement s + \<bar>startPoint s - x - lastDiff s\<bar>
       \<and> lastDiff (onMove v (MouseEvent x y t) s) = startPoint s - x
       \<and> hasMoved (onMove v (MouseEvent x y t) s)
           = (hasMoved s \<or> totalMovement s + \<bar>startPoint s - x - lastDiff s\<bar> > 5)"
  using assms
  by (simp add: onMove_def onMoveDesktop_def dispatchEvent_def Let_def)

lemma onStart_keeps_lastDiff:
  "lastDiff (onStart v e s) = lastDiff s"
  by (simp add: onStart_def showPanelContent_def Let_def)

section \<open>The end of a drag\<close>




text \<open>C2 (as the code has it): releasing a drag more than 500 ms after the drag started
  (the moment the hold timer fired) applies no snap. The panel keeps the size it had just
  before the release, which is the size the last move wrote; the bounds and the
  minimized and maximized flags are unchanged, no event is dispatched, and the drag is
  over.\<close>

theorem onEnd_long_drag_keeps_size:
  assumes "isDragging s" "now v - dragStart s > 500"
  shows "style_height (onEnd v s) = style_height s
       \<and> style_width (onEnd v s) = style_width s
       \<and> dispatched (onEnd v s) = dispatched s
       \<and> minSize (onEnd v s) = minSize s \<and> maxSize (onEnd v s) = maxSize s
       \<and> isMinimized (onEnd v s) = isMinimized s \<and> isMaximized (onEnd v s) = isMaximized s
       \<and> \<not> isDragging (onEnd v s)"
  using assms by (simp add: onEnd_def Let_def)

theorem onEnd_long_drag_keeps_size_witness:
  "isDragging dragging_phone \<and> now (phone 1700 250) - dragStart dragging_phone > 500
   \<and> hasMoved dragging_phone
   \<and> style_height (onEnd (phone 1700 250) dragging_phone) = Px 250
   \<and> dispatched (onEnd (phone 1700 250) dragging_phone)
       = [''bottomsheet:open'', ''bottomsheet:dragging'']"
  using onEnd_long_drag_keeps_size [of dragging_phone "phone 1700 250"]
  by (simp add: dragging_phone_eq phone_def)

text \<open>The claim as it stands fails: in a gesture of 700 ms that moved the finger up by 50
  pixels, the panel measured 200 pixels at the start of the drag (with no inline height)
  and is 250 pixels high after the release.\<close>

theorem long_drag_changes_size:
  "now (phone 1700 250) - dragStart dragging_phone > 500
   \<and> style_height (run fresh [Open (phone 0 0)]) = Unset
   \<and> startSize (run fresh [Open (phone 0 0), Press (touch 500), HoldFire (phone 1000 200)]) = 200
   \<and> style_height (run fresh [Open (phone 0 0), Press (touch 500), HoldFire (phone 1000 200)])
       = Unset
   \<and> style_height
        (run fresh [Open (phone 0 0), Press (touch 500), HoldFire (phone 1000 200),
                    Move (phone 1050 200) (touch 450), Release (phone 1700 250)]) = Px 250"
  by (simp add: dragging_phone_eq dragging_phone_eq [unfolded dragging_phone_def]
      example_defs drag_defs preset_defs Let_def)

text \<open>When the flag \<open>hasMoved\<close> is false, the release changes neither inline size of the panel
  nor its bounds or flags and dispatches no event, whatever the clock says.\<close>

lemma onEnd_without_hasMoved:
  assumes "\<not> hasMoved s"
  shows "style_height (onEnd v s) = style_height s
       \<and> style_width (onEnd v s) = style_width s
       \<and> dispatched (onEnd v s) = dispatched s
       \<and> minSize (onEnd v s) = minSize s \<and> maxSize (onEnd v s) = maxSize s
       \<and> isMinimized (onEnd v s) = isMinimized s \<and> isMaximized (onEnd v s) = isMaximized s"
  using assms by (simp add: onEnd_def Let_def)

text \<open>A touch gesture on a phone whose accumulated movement stays within the threshold keeps
  the flag false: the accumulation starts from zero at the start point.\<close>

lemma onStart_touch_then_small_move:
  assumes "isMobile v" "isMobile w" "isDragZone t" "\<bar>y' - y\<bar> \<le> 5"
  shows "\<not> hasMoved (onMove w (TouchEvent x' y' t' et') (onStart v (TouchEvent x y t et) s))"
  using assms
  by (simp add: onStart_def onMove_def onMoveMobile_def showPanelContent_def
      dispatchEvent_def Let_def)

text \<open>C7 fails on the horizontal axis: \<open>onStart\<close> resets the accumulated movement but not
  \<open>lastDiff\<close>, so the first mouse move of a drag counts the distance to the last offset of
  the drag before. After a first drag that ended 100 pixels right of its start, a second
  press followed by a move of one pixel has an accumulated movement of 99: the flag
  \<open>hasMoved\<close> is set, and the release, 100 ms after the drag started, snaps the panel to
  the minimum. The release clears the width of 399 pixels, sets the minimized flag and
  dispatches the minsize event.\<close>

theorem one_pixel_mouse_move_after_earlier_drag_snaps:
  "lastDiff (run dragging_desktop [Release (desktop 1700 400)]) = - 100
   \<and> \<not> isDragging (run dragging_desktop [Release (desktop 1700 400)])
   \<and> startPoint second_desktop_drag = 1000
   \<and> totalMovement second_desktop_drag = 99
   \<and> hasMoved second_desktop_drag
   \<and> style_width second_desktop_drag = Px 399
   \<and> \<not> isMinimized second_desktop_drag
   \<and> now (desktop 5100 399) - dragStart second_desktop_drag = 100
   \<and> style_width (onEnd (desktop 5100 399) second_desktop_drag) = Unset
   \<and> isMinimized (onEnd (desktop 5100 399) second_desktop_drag)
   \<and> dispatched (onEnd (desktop 5100 399) second_desktop_drag)
       = dispatched second_desktop_drag @ [''bottomsheet:minsize'']"
  by (simp add: second_desktop_drag_eq dragging_desktop_eq desktop_def isMobile_def run_def
      onEnd_def onEndDesktop_def preset_defs Let_def)

text \<open>C5: on the horizontal axis a drag that passed the movement and duration gates has two
  outcomes, decided by comparing the final width with the starting width: below the start
  the panel snaps to the minimum (the inline width is cleared), otherwise to the maximum
  (the width is assigned the maximum, in pixels; the page keeps a negative maximum out and
  the width is then cleared). Asking for mid size on the desktop is asking for the
  maximum.\<close>

theorem desktop_two_tiers:
  assumes "\<not> isMobile v"
  shows "setMidSize v s = setMaxSize v s
     \<and> (isDragging s \<and> hasMoved s \<and> now v - dragStart s \<le> 500 \<longrightarrow>
          (if panel_offsetWidth v < startSize s
           then onEnd v s = setMinSize v (s\<lparr>hasMoved := False, isDragging := False, minSize := 40\<rparr>)
              \<and> dispatched (onEnd v s) = dispatched s @ [''bottomsheet:minsize'']
              \<and> style_width (onEnd v s) = Unset
              \<and> isMinimized (onEnd v s) \<and> \<not> isMaximized (onEnd v s)
           else onEnd v s = setMaxSize v (s\<lparr>hasMoved := False, isDragging := False, minSize := 40\<rparr>)
              \<and> dispatched (onEnd v s) = dispatched s @ [''bottomsheet:maxsize'']
              \<and> style_width (onEnd v s) = (if maxSize s < 0 then Unset else Px (maxSize s))
              \<and> isMaximized (onEnd v s) \<and> \<not> isMinimized (onEnd v s)))"
  using assms
  by (simp add: onEnd_def onEndDesktop_def preset_defs Let_def)

theorem desktop_two_tiers_witness:
  "\<not> isMobile (desktop 1100 400)
   \<and> isDragging dragging_desktop \<and> hasMoved dragging_desktop
   \<and> now (desktop 1100 400) - dragStart dragging_desktop \<le> 500
   \<and> panel_offsetWidth (desktop 1100 400) < startSize dragging_desktop
   \<and> style_width (onEnd (desktop 1100 400) dragging_desktop) = Unset
   \<and> isMinimized (onEnd (desktop 1100 400) dragging_desktop)
   \<and> setMidSize (desktop 1100 400) dragging_desktop = setMaxSize (desktop 1100 400) dragging_desktop"
  using desktop_two_tiers [of "desktop 1100 400" dragging_desktop]
  by (simp add: dragging_desktop_eq desktop_def isMobile_def onEnd_def onEndDesktop_def
      preset_defs Let_def)

section \<open>Sizes written by a drag\<close>

lemma onMove_sizes:
  assumes "minSize s \<le> maxSize s"
  shows
  "(style_height (onMove v e s) = style_height s
      \<or> size_within (minSize s) (maxSize s) (style_height (onMove v e s)))
   \<and> (style_width (onMove v e s) = style_width s
      \<or> size_within (minSize s) (maxSize s) (style_width (onMove v e s)))
   \<and> (0 \<le> minSize s \<and> isDragging s \<and> isMobile v \<and> isTouchEvent e
        \<and> isDragging (onMove v e s) \<longrightarrow>
        size_within (minSize s) (maxSize s) (style_height (onMove v e s)))
   \<and> (0 \<le> minSize s \<and> isDragging s \<and> isMouseEvent e \<longrightarrow>
        size_within (minSize s) (maxSize s) (style_width (onMove v e s)))
   \<and> minSize (onMove v e s) = minSize s \<and> maxSize (onMove v e s) = maxSize s"
  using assms
  by (cases e)
     (auto simp: onMove_def onMoveMobile_def onMoveDesktop_def dispatchEvent_def Let_def
        size_within_def set_px_def split: option.splits)

lemma onEnd_sizes:
  assumes "minSize (onEnd v s) \<le> maxSize (onEnd v s)"
  shows
  "(style_height (onEnd v s) = style_height s \<or> style_height (onEnd v s) = Unset
      \<or> style_height (onEnd v s) = Percent 50
      \<or> size_within (minSize (onEnd v s)) (maxSize (onEnd v s)) (style_height (onEnd v s)))
   \<and> (style_width (onEnd v s) = style_width s \<or> style_width (onEnd v s) = Unset
      \<or> size_within (minSize (onEnd v s)) (maxSize (onEnd v s)) (style_width (onEnd v s)))"
  using assms
  by (auto simp: onEnd_def onEndMobile_def onEndDesktop_def preset_defs Let_def
        size_within_def split: option.splits if_splits)

text \<open>C3 (as the code has it): with a minimum not above the maximum, every move leaves the
  bounds alone and each inline size it writes, height or width, is a pixel length within
  the bounds; when the minimum is moreover not negative, a touch move on a phone that
  keeps the drag alive writes such a height and a mouse move writes such a width. After
  a release, each inline size is what it was before the release, or is cleared, or (the
  height) is the preset 50 percent, or is a pixel length within the bounds in force after
  the release, provided the minimum measured at the release is not above the maximum.\<close>

theorem drag_sizes_within_bounds:
  assumes "minSize s \<le> maxSize s"
  shows
  "(style_height (onMove v e s) = style_height s
      \<or> size_within (minSize s) (maxSize s) (style_height (onMove v e s)))
   \<and> (style_width (onMove v e s) = style_width s
      \<or> size_within (minSize s) (maxSize s) (style_width (onMove v e s)))
   \<and> (0 \<le> minSize s \<and> isDragging s \<and> isMobile v \<and> isTouchEvent e
        \<and> isDragging (onMove v e s) \<longrightarrow>
        size_within (minSize s) (maxSize s) (style_height (onMove v e s)))
   \<and> (0 \<le> minSize s \<and> isDragging s \<and> isMouseEvent e \<longrightarrow>
        size_within (minSize s) (maxSize s) (style_width (onMove v e s)))
   \<and> minSize (onMove v e s) = minSize s \<and> maxSize (onMove v e s) = maxSize s
   \<and> (minSize (onEnd w s) \<le> maxSize (onEnd w s) \<longrightarrow>
        (style_height (onEnd w s) = style_height s \<or> style_height (onEnd w s) = Unset
           \<or> style_height (onEnd w s) = Percent 50
           \<or> size_within (minSize (onEnd w s)) (maxSize (onEnd w s)) (style_height (onEnd w s)))
        \<and> (style_width (onEnd w s) = style_width s \<or> style_width (onEnd w s) = Unset
           \<or> size_within (minSize (onEnd w s)) (maxSize (onEnd w s)) (style_width (onEnd w s))))"
  using onMove_sizes [OF assms, of v e] onEnd_sizes [of w s] by blast

text \<open>On the phone, the move from 500 up to 400 writes 300 pixels, within 40 and 760; and a
  release at 150, below the start and below the threshold, settles at 40 pixels.\<close>

theorem drag_sizes_within_bounds_witness:
  "minSize dragging_phone \<le> maxSize dragging_phone \<and> 0 \<le> minSize dragging_phone
   \<and> isDragging dragging_phone \<and> isMobile (phone 1060 250) \<and> isTouchEvent (touch 400)
   \<and> isDragging (onMove (phone 1060 250) (touch 400) dragging_phone)
   \<and> style_height (onMove (phone 1060 250) (touch 400) dragging_phone) = Px 300
   \<and> size_within 40 760 (style_height (onMove (phone 1060 250) (touch 400) dragging_phone))
   \<and> minSize (onEnd (phone 1100 150) dragging_phone)
       \<le> maxSize (onEnd (phone 1100 150) dragging_phone)
   \<and> style_height (onEnd (phone 1100 150) dragging_phone) = Px 40
   \<and> size_within 40 760 (style_height (onEnd (phone 1100 150) dragging_phone))"
  using drag_sizes_within_bounds
    [of dragging_phone "phone 1060 250" "touch 400" "phone 1100 150"]
  by (simp add: dragging_phone_eq example_defs drag_defs preset_defs Let_def size_within_def)

text \<open>With a negative minimum a move can compute a negative size; the page keeps it out and
  the inline width stays as it was.\<close>

lemma onMove_negative_size_not_written:
  "style_width
     (onMove (desktop 1050 30) (mouse 1050)
        (run (BottomSheet_new 0 (Some 500) (Some (- 50)) None)
           [Press (mouse 1000), HoldFire (desktop 1000 30)])) = Unset"
  by (simp add: example_defs drag_defs preset_defs Let_def)

text \<open>The claim as it stands fails for the settled size, in two ways. On the page with the
  tall header the bounds are 420 and 760; a drag from 700 down to 500 (below the start,
  above the threshold 456) is released in time and settles at the mid preset: the height
  written is 50 percent, not a pixel length taken from the bounds (and 50 percent of the
  container's 800 pixels is 400, below the minimum 420). On the page whose header and handle
  measure 510 together, with the default bounds 40 and 500, a drag from 560 down to 260
  (within the bounds, below the start and below the threshold 300) settles at the
  minimum measured at the release: 510 pixels, above the maximum 500.\<close>

theorem settled_mid_size_outside_bounds:
  "minSize dragging_tall_header \<le> maxSize dragging_tall_header
   \<and> isDragging dragging_tall_header \<and> hasMoved dragging_tall_header
   \<and> now (tall_header_phone 1100 500) - dragStart dragging_tall_header \<le> 500
   \<and> minSize (onEnd (tall_header_phone 1100 500) dragging_tall_header) = 420
   \<and> maxSize (onEnd (tall_header_phone 1100 500) dragging_tall_header) = 760
   \<and> style_height (onEnd (tall_header_phone 1100 500) dragging_tall_header) = Percent 50
   \<and> \<not> size_within 420 760
          (style_height (onEnd (tall_header_phone 1100 500) dragging_tall_header))
   \<and> container_clientHeight (tall_header_phone 1100 500) * (50 / 100)
       < minSize (onEnd (tall_header_phone 1100 500) dragging_tall_header)
   \<and> minSize dragging_grown_header = 40 \<and> maxSize dragging_grown_header = 500
   \<and> style_height dragging_grown_header = Px 260
   \<and> isDragging dragging_grown_header \<and> hasMoved dragging_grown_header
   \<and> now (grown_header_phone 1100 260) - dragStart dragging_grown_header \<le> 500
   \<and> style_height (onEnd (grown_header_phone 1100 260) dragging_grown_header) = Px 510
   \<and> maxSize (onEnd (grown_header_phone 1100 260) dragging_grown_header) = 500
   \<and> \<not> size_within 40 500
          (style_height (onEnd (grown_header_phone 1100 260) dragging_grown_header))"
  by (simp add: dragging_tall_header_eq dragging_grown_header_eq tall_header_phone_def
      grown_header_phone_def isMobile_def onEnd_def onEndMobile_def preset_defs Let_def
      size_within_def)

section \<open>One drag at a time\<close>

text \<open>C4 (as the code has it): while the hold timer is pending, start attempts are ignored:
  any number of them leaves the whole state as it was, so the start point, the start
  size, the drag start time, the accumulated movement, the moved flag and the pending
  timer are unchanged.\<close>

theorem presses_while_pending_are_ignored:
  assumes "holdTimer s \<noteq> None"
  shows "hold_start e s = s \<and> run s (map Press es) = s"
proof -
  have one: "hold_start e' s = s" for e'
    using assms by (simp add: hold_start_def)
  have "foldl step s (map Press es) = s"
    by (induction es) (simp_all add: one)
  with one show ?thesis by (simp add: run_def)
qed

theorem presses_while_pending_are_ignored_witness:
  "holdTimer (run fresh [Open (phone 0 0), Press (touch 500)]) \<noteq> None
   \<and> hold_start (touch 300) (run fresh [Open (phone 0 0), Press (touch 500)])
       = run fresh [Open (phone 0 0), Press (touch 500)]
   \<and> holdTimer (run (run fresh [Open (phone 0 0), Press (touch 500)])
                   (map Press [touch 300, touch 200]))
       = Some (touch 500)"
  using presses_while_pending_are_ignored
    [of "run fresh [Open (phone 0 0), Press (touch 500)]" "touch 300" "[touch 300, touch 200]"]
  by (simp add: example_defs preset_defs hold_start_def Let_def)

text \<open>The claim as it stands fails while a drag is in progress. In the middle of the drag
  on the phone no timer is pending, so a second press arms the timer, and when it fires
  the drag state is set anew: start point, start size, start time, accumulated movement
  and the moved flag all change.\<close>

theorem press_while_dragging_restarts_drag:
  "isDragging dragging_phone \<and> holdTimer dragging_phone = None
   \<and> holdTimer (hold_start (touch 300) dragging_phone) = Some (touch 300)
   \<and> startPoint dragging_phone = 500 \<and> startSize dragging_phone = 200
   \<and> dragStart dragging_phone = 1000 \<and> totalMovement dragging_phone = 50
   \<and> hasMoved dragging_phone
   \<and> startPoint (run dragging_phone [Press (touch 300), HoldFire (phone 1100 250)]) = 300
   \<and> startSize (run dragging_phone [Press (touch 300), HoldFire (phone 1100 250)]) = 250
   \<and> dragStart (run dragging_phone [Press (touch 300), HoldFire (phone 1100 250)]) = 1100
   \<and> totalMovement (run dragging_phone [Press (touch 300), HoldFire (phone 1100 250)]) = 0
   \<and> \<not> hasMoved (run dragging_phone [Press (touch 300), HoldFire (phone 1100 250)])"
  by (simp add: dragging_phone_eq phone_def touch_def on_handle_def isMobile_def run_def
      drag_defs preset_defs Let_def)

section \<open>Minimized and maximized exclude each other\<close>

lemma flags_step:
  "\<not> (isMaximized s \<and> isMinimized s) \<Longrightarrow>
   \<not> (isMaximized (step s a) \<and> isMinimized (step s a))"
  by (cases a)
     (auto simp: open_bs_def close_bs_def minimize_def updatePanel_def containerClick_def
        updateSizeLimits_def preset_defs drag_defs Let_def
        split: option.splits if_splits)

lemma flags_run:
  "\<not> (isMaximized s \<and> isMinimized s) \<Longrightarrow>
   \<not> (isMaximized (run s acts) \<and> isMinimized (run s acts))"
proof (induction acts arbitrary: s)
  case Nil
  then show ?case by (simp add: run_def)
next
  case (Cons a acts)
  have "run s (a # acts) = run (step s a) acts" by (simp add: run_def)
  with Cons.IH[OF flags_step[OF Cons.prems]] show ?case by simp
qed

text \<open>C8: in every state reached from a newly constructed controller by any sequence of
  operations (open, close, minimize, update, showing and hiding the content, the three
  size presets, clicks on the container, presses, cancellations and firings of the hold
  timer, moves and releases), the flags \<open>isMaximized\<close> and \<open>isMinimized\<close> are not both
  true, and neither are the answers of the two public queries. Both can be false: after
  opening on a phone and asking for mid size, neither holds.\<close>

theorem never_maximized_and_minimized:
  "\<not> (isMaximized (run (BottomSheet_new p mx mn cl) acts)
        \<and> isMinimized (run (BottomSheet_new p mx mn cl) acts))
   \<and> \<not> (isMaximized_query (run (BottomSheet_new p mx mn cl) acts)
        \<and> isMinimized_query (run (BottomSheet_new p mx mn cl) acts))
   \<and> \<not> isMaximized (run (BottomSheet_new p mx mn cl) [Open (phone 0 0), SetMidSize (phone 0 0)])
   \<and> \<not> isMinimized (run (BottomSheet_new p mx mn cl) [Open (phone 0 0), SetMidSize (phone 0 0)])
   \<and> style_height (run (BottomSheet_new p mx mn cl) [Open (phone 0 0), SetMidSize (phone 0 0)])
       = Percent 50"
proof -
  have "\<not> (isMaximized (BottomSheet_new p mx mn cl) \<and> isMinimized (BottomSheet_new p mx mn cl))"
    by (simp add: BottomSheet_new_def)
  then have "\<not> (isMaximized (run (BottomSheet_new p mx mn cl) acts)
        \<and> isMinimized (run (BottomSheet_new p mx mn cl) acts))"
    by (rule flags_run)
  moreover have
    "\<not> isMaximized (run (BottomSheet_new p mx mn cl) [Open (phone 0 0), SetMidSize (phone 0 0)])
     \<and> \<not> isMinimized (run (BottomSheet_new p mx mn cl) [Open (phone 0 0), SetMidSize (phone 0 0)])
     \<and> style_height (run (BottomSheet_new p mx mn cl) [Open (phone 0 0), SetMidSize (phone 0 0)])
         = Percent 50"
    by (simp add: example_defs preset_defs Let_def)
  ultimately show ?thesis by (auto simp: isMaximized_query_def isMinimized_query_def)
qed

theorem never_maximized_and_minimized_witness:
  "isMaximized (run (BottomSheet_new 0 None None None) [Open (phone 0 0), SetMaxSize (phone 0 0)])
   \<and> \<not> isMinimized
         (run (BottomSheet_new 0 None None None) [Open (phone 0 0), SetMaxSize (phone 0 0)])
   \<and> \<not> isMaximized
         (run (BottomSheet_new 0 None None None)
            [Open (phone 0 0), SetMaxSize (phone 0 0), Minimize (phone 0 0)])
   \<and> isMinimized
        (run (BottomSheet_new 0 None None None)
           [Open (phone 0 0), SetMaxSize (phone 0 0), Minimize (phone 0 0)])"
  using never_maximized_and_minimized
    [of 0 None None None "[Open (phone 0 0), SetMaxSize (phone 0 0), Minimize (phone 0 0)]"]
  by (simp add: example_defs preset_defs minimize_def Let_def)

end
